theory Spec2Isabelle
  imports Main "HOL-Library.Char_ord" "HOL-Library.List_Lexorder"
begin

section \<open>Data model of internal/aws/albec2/ec2.go\<close>

text \<open>
  The descriptors of the remote inventory API, with the fields the resolvers read.
  A pointer field that the code dereferences without a check is a plain value here;
  the one field the code tests against nil (the VPC id of an instance) is an option.
\<close>

record Tag =
  Key :: string
  Value :: string

record Filter =
  Name :: string
  Values :: "string list"

record Subnet =
  SubnetId :: string
  AvailabilityZone :: string
  Tags :: "Tag list"

record SecurityGroup =
  GroupId :: string
  GroupTags :: "Tag list"

record Vpc =
  VpcIdOfVpc :: string

record Instance =
  VpcId :: "string option"

record Reservation =
  Instances :: "Instance list"

record DescribeInstancesOutput =
  Reservations :: "Reservation list"

record InstanceStatus =
  InstanceId :: string
  InstanceStateCode :: int

text \<open>
  Errors are values. \<open>AwsErr code message\<close> is an error of the transport that carries a
  machine-readable code (awserr.Error); \<open>PlainErr\<close> is any other error of a collaborator.
  The remaining constructors are the \<open>fmt.Errorf\<close> sites of the file: \<open>Errorf\<close> holds a
  fully rendered message, the others keep the arguments of the format.
\<close>

datatype error =
    AwsErr string string
  | PlainErr string
  | Errorf string
  | InvalidScheme string
  | FailedToGetTags error
  | UnableToFetchSubnets "Filter list" error
  | UnableToFetchSecurityGroups "Filter list" error
  | UnresolvedSubnets string string "string list"
  | InvalidAmountOfVPCs nat string
  | UnableToDescribeInstanceStatus string error

text \<open>A call either returns its Go result tuple or panics (a failed type assertion).\<close>

datatype 'a res = Ret 'a | Panic string

subsection \<open>Constants\<close>

definition tagNameCluster :: string where
  "tagNameCluster = ''kubernetes.io/cluster''"

definition tagNameSubnetInternalELB :: string where
  "tagNameSubnetInternalELB = ''kubernetes.io/role/internal-elb''"

definition tagNameSubnetPublicELB :: string where
  "tagNameSubnetPublicELB = ''kubernetes.io/role/elb''"

text \<open>Durations are nanoseconds, as in Go's \<open>time.Duration\<close>.\<close>

definition Minute :: nat where
  "Minute = 60000000000"

definition GetSecurityGroupsCacheTTL :: nat where
  "GetSecurityGroupsCacheTTL = Minute * 60"

definition GetSubnetsCacheTTL :: nat where
  "GetSubnetsCacheTTL = Minute * 60"

definition IsNodeHealthyCacheTTL :: nat where
  "IsNodeHealthyCacheTTL = Minute * 5"

text \<open>
  The two scheme values are constants of the elbv2 package; the spec gives their
  values as "internal" and "internet-facing".
\<close>

definition LoadBalancerSchemeEnumInternal :: string where
  "LoadBalancerSchemeEnumInternal = ''internal''"

definition LoadBalancerSchemeEnumInternetFacing :: string where
  "LoadBalancerSchemeEnumInternetFacing = ''internet-facing''"

subsection \<open>The TTL cache\<close>

text \<open>
  The values the resolvers store behind the cache's \<open>interface{}\<close>: a string pointer,
  a subnet, a VPC or a boolean. A read asserts the type it expects.
\<close>

datatype cval = VString string | VSubnet Subnet | VVpc Vpc | VBool bool

type_synonym cache = "(string \<times> string) \<rightharpoonup> (cval \<times> nat)"

text \<open>
  Modelled from the spec: the package albcache is not part of the sources at hand.
  The spec (4.1) gives it as a namespaced key-value store with per-entry expiry:
  a value set with ttl \<open>T\<close> is visible to get until \<open>T\<close> elapses and is a miss afterwards;
  a set overwrites the entry wholesale. Each entry holds its value and its expiry time.
\<close>

definition albcache_Get :: "cache \<Rightarrow> nat \<Rightarrow> string \<Rightarrow> string \<Rightarrow> cval option" where
  "albcache_Get c now ns k =
     (case c (ns, k) of
        None \<Rightarrow> None
      | Some (v, expiry) \<Rightarrow> if now < expiry then Some v else None)"

definition albcache_Set :: "cache \<Rightarrow> nat \<Rightarrow> string \<Rightarrow> string \<Rightarrow> cval \<Rightarrow> nat \<Rightarrow> cache" where
  "albcache_Set c now ns k v ttl = c((ns, k) \<mapsto> (v, now + ttl))"

subsection \<open>The collaborators and the state\<close>

text \<open>
  Every request sent to a collaborator is recorded, so that "no network access" and
  "exactly one query" are statements about the record of calls.
\<close>

datatype call =
    GetInstanceIdentityDocumentCall
  | DescribeInstancesCall "string list"
  | DescribeSubnetsCall "Filter list"
  | DescribeSecurityGroupsCall "Filter list"
  | DescribeVpcsCall "string list"
  | DescribeInstanceStatusCall "string list"
  | GetClusterResourcesCall
  | DeleteSecurityGroupCall string

text \<open>
  The answers of the collaborators at the time of one call of a resolver: the
  environment variable \<open>AWS_VPC_ID\<close>, the metadata service, the inventory API and the
  tag index. The subnets of the tag index are listed in the order in which the
  iteration over the Go map visits them.
\<close>

record world =
  AWS_VPC_ID :: string
  GetInstanceIdentityDocument :: "error + string"
  DescribeInstances :: "string list \<Rightarrow> error + DescribeInstancesOutput"
  DescribeSubnets :: "Filter list \<Rightarrow> error + Subnet list"
  DescribeSecurityGroups :: "Filter list \<Rightarrow> error + SecurityGroup list"
  DescribeVpcs :: "string list \<Rightarrow> error + Vpc list"
  DescribeInstanceStatus :: "string list \<Rightarrow> error + InstanceStatus list"
  GetClusterResources :: "error + (string \<times> Tag list) list"

record state =
  cache :: cache
  calls :: "call list"

definition record_call :: "call \<Rightarrow> state \<Rightarrow> state" where
  "record_call c st = st\<lparr>calls := calls st @ [c]\<rparr>"

section \<open>The VPC locator\<close>

text \<open>Rendering of \<open>%d\<close> for a length.\<close>

fun showNat :: "nat \<Rightarrow> string" where
  "showNat n =
     (if n < 10 then [''0123456789'' ! n]
      else showNat (n div 10) @ [''0123456789'' ! (n mod 10)])"

declare showNat.simps [simp del]

definition instanceVPCIsValid :: "DescribeInstancesOutput \<Rightarrow> error option" where
  "instanceVPCIsValid o' =
     (if length (Reservations o') < 1 then
        Some (Errorf (''When looking up VPC ID could not identify instance. Found ''
                      @ showNat (length (Reservations o')) @ '' reservations''
                      @ '' in AWS call. Should have found atleast 1.''))
      else if length (Instances (hd (Reservations o'))) < 1 then
        Some (Errorf (''When looking up VPC ID could not identify instance. Found ''
                      @ showNat (length (Reservations o')) @ '' instances''
                      @ '' in AWS call. Should have found atleast 1.''))
      else if VpcId (hd (Instances (hd (Reservations o')))) = None then
        Some (Errorf ''When looking up VPC ID could not instance returned had a nil value for VPC.'')
      else if the (VpcId (hd (Instances (hd (Reservations o'))))) = [] then
        Some (Errorf ''When looking up VPC ID could not instance returned had an empty value for VPC.'')
      else None)"

definition GetVPCID :: "world \<Rightarrow> nat \<Rightarrow> state \<Rightarrow> (error + string) res \<times> state" where
  "GetVPCID w now st =
     (if AWS_VPC_ID w \<noteq> [] then (Ret (Inr (AWS_VPC_ID w)), st)
      else case albcache_Get (cache st) now ''EC2.GetVPCID'' [] of
        Some item \<Rightarrow>
          (case item of
             VString vpc \<Rightarrow> (Ret (Inr vpc), st)
           | _ \<Rightarrow> (Panic ''interface conversion: not *string'', st))
      | None \<Rightarrow>
          let st1 = record_call GetInstanceIdentityDocumentCall st in
          (case GetInstanceIdentityDocument w of
             Inl err \<Rightarrow> (Ret (Inl err), st1)
           | Inr instanceID \<Rightarrow>
               let st2 = record_call (DescribeInstancesCall [instanceID]) st1 in
               (case DescribeInstances w [instanceID] of
                  Inl err \<Rightarrow> (Ret (Inl err), st2)
                | Inr descInstancesOutput \<Rightarrow>
                    (case instanceVPCIsValid descInstancesOutput of
                       Some err \<Rightarrow> (Ret (Inl err), st2)
                     | None \<Rightarrow>
                         let vpc = the (VpcId (hd (Instances (hd (Reservations descInstancesOutput)))))
                         in (Ret (Inr vpc),
                             st2\<lparr>cache := albcache_Set (cache st2) now ''EC2.GetVPCID'' []
                                             (VString vpc) (Minute * 60)\<rparr>)))))"

definition GetVPC :: "world \<Rightarrow> nat \<Rightarrow> string \<Rightarrow> state \<Rightarrow> (error + Vpc) res \<times> state" where
  "GetVPC w now id' st =
     (case albcache_Get (cache st) now ''EC2.GetVPCID'' id' of
        Some item \<Rightarrow>
          (case item of
             VVpc vpc \<Rightarrow> (Ret (Inr vpc), st)
           | _ \<Rightarrow> (Panic ''interface conversion: not *ec2.Vpc'', st))
      | None \<Rightarrow>
          let st1 = record_call (DescribeVpcsCall [id']) st in
          (case DescribeVpcs w [id'] of
             Inl err \<Rightarrow> (Ret (Inl err), st1)
           | Inr vpcs \<Rightarrow>
               if length vpcs \<noteq> 1 then (Ret (Inl (InvalidAmountOfVPCs (length vpcs) id')), st1)
               else (Ret (Inr (hd vpcs)),
                     st1\<lparr>cache := albcache_Set (cache st1) now ''EC2.GetVPCID'' id'
                                     (VVpc (hd vpcs)) (Minute * 60)\<rparr>)))"

section \<open>Resolution by name\<close>

text \<open>
  Modelled from the spec: \<open>util.EC2Tags.Get\<close> (package pkg/util/types) is not part of
  the sources at hand. The spec has the resolvers "read its Name tag" and omit a record
  with no such tag: the value of the first tag with the key, if there is one.
\<close>

fun EC2Tags_Get :: "Tag list \<Rightarrow> string \<Rightarrow> string option" where
  "EC2Tags_Get [] s = None"
| "EC2Tags_Get (tag # t) s = (if Key tag = s then Some (Value tag) else EC2Tags_Get t s)"

text \<open>
  The first loop of \<open>GetSubnets\<close> and of \<open>GetSecurityGroups\<close>: the identifiers of the
  names found in the cache, and the names to query.
\<close>

fun lookupNames ::
  "cache \<Rightarrow> nat \<Rightarrow> string \<Rightarrow> string list \<Rightarrow> string list \<times> string list
     \<Rightarrow> (string list \<times> string list) res" where
  "lookupNames c now cacheName [] acc = Ret acc"
| "lookupNames c now cacheName (n # names) (found, queryNames) =
     (case albcache_Get c now cacheName n of
        Some item \<Rightarrow>
          (case item of
             VString v \<Rightarrow> lookupNames c now cacheName names (found @ [v], queryNames)
           | _ \<Rightarrow> Panic ''interface conversion: not *string'')
      | None \<Rightarrow> lookupNames c now cacheName names (found, queryNames @ [n]))"

text \<open>The second loop of \<open>GetSubnets\<close>, over the subnets of the response.\<close>

fun storeSubnets :: "nat \<Rightarrow> Subnet list \<Rightarrow> cache \<times> string list \<Rightarrow> cache \<times> string list" where
  "storeSubnets now [] acc = acc"
| "storeSubnets now (subnet # rest) (c, subnets) =
     (case EC2Tags_Get (Tags subnet) ''Name'' of
        Some value \<Rightarrow>
          storeSubnets now rest
            (albcache_Set c now ''EC2.GetSubnets'' value (VString (SubnetId subnet)) GetSubnetsCacheTTL,
             subnets @ [SubnetId subnet])
      | None \<Rightarrow> storeSubnets now rest (c, subnets))"

definition GetSubnets ::
  "world \<Rightarrow> nat \<Rightarrow> string list \<Rightarrow> state \<Rightarrow> (string list \<times> error option) res \<times> state" where
  "GetSubnets w now names st =
     (case GetVPCID w now st of
        (Panic p, st1) \<Rightarrow> (Panic p, st1)
      | (Ret (Inl err), st1) \<Rightarrow> (Ret ([], Some err), st1)
      | (Ret (Inr vpcID), st1) \<Rightarrow>
          (case lookupNames (cache st1) now ''EC2.GetSubnets'' names ([], []) of
             Panic p \<Rightarrow> (Panic p, st1)
           | Ret (subnets, queryNames) \<Rightarrow>
               if length queryNames = 0 then (Ret (subnets, None), st1)
               else
                 let in' = [\<lparr>Name = ''tag:Name'', Values = names\<rparr>,
                            \<lparr>Name = ''vpc-id'', Values = [vpcID]\<rparr>];
                     st2 = record_call (DescribeSubnetsCall in') st1
                 in (case DescribeSubnets w in' of
                       Inl err \<Rightarrow> (Ret (subnets, Some (UnableToFetchSubnets in' err)), st2)
                     | Inr describeSubnetsOutput \<Rightarrow>
                         (case storeSubnets now describeSubnetsOutput (cache st2, subnets) of
                            (c, subnets') \<Rightarrow> (Ret (subnets', None), st2\<lparr>cache := c\<rparr>)))))"

text \<open>The second loop of \<open>GetSecurityGroups\<close>; a group with no Name tag is cached under "".\<close>

fun storeSecurityGroups ::
  "nat \<Rightarrow> SecurityGroup list \<Rightarrow> cache \<times> string list \<Rightarrow> cache \<times> string list" where
  "storeSecurityGroups now [] acc = acc"
| "storeSecurityGroups now (sg # rest) (c, sgs) =
     (let name = (case EC2Tags_Get (GroupTags sg) ''Name'' of Some v \<Rightarrow> v | None \<Rightarrow> [])
      in storeSecurityGroups now rest
           (albcache_Set c now ''EC2.GetSecurityGroups'' name (VString (GroupId sg))
              GetSecurityGroupsCacheTTL,
            sgs @ [GroupId sg]))"

definition GetSecurityGroups ::
  "world \<Rightarrow> nat \<Rightarrow> string list \<Rightarrow> state \<Rightarrow> (string list \<times> error option) res \<times> state" where
  "GetSecurityGroups w now names st =
     (case GetVPCID w now st of
        (Panic p, st1) \<Rightarrow> (Panic p, st1)
      | (Ret (Inl err), st1) \<Rightarrow> (Ret ([], Some err), st1)
      | (Ret (Inr vpcID), st1) \<Rightarrow>
          (case lookupNames (cache st1) now ''EC2.GetSecurityGroups'' names ([], []) of
             Panic p \<Rightarrow> (Panic p, st1)
           | Ret (sgs, queryNames) \<Rightarrow>
               if length queryNames = 0 then (Ret (sgs, None), st1)
               else
                 let in' = [\<lparr>Name = ''tag:Name'', Values = queryNames\<rparr>,
                            \<lparr>Name = ''vpc-id'', Values = [vpcID]\<rparr>];
                     st2 = record_call (DescribeSecurityGroupsCall in') st1
                 in (case DescribeSecurityGroups w in' of
                       Inl err \<Rightarrow> (Ret (sgs, Some (UnableToFetchSecurityGroups in' err)), st2)
                     | Inr describeSecurityGroupsOutput \<Rightarrow>
                         (case storeSecurityGroups now describeSecurityGroupsOutput (cache st2, sgs) of
                            (c, sgs') \<Rightarrow> (Ret (sgs', None), st2\<lparr>cache := c\<rparr>)))))"

section \<open>Cluster subnets\<close>

fun subnetIsUsable :: "Subnet \<Rightarrow> Subnet list \<Rightarrow> bool" where
  "subnetIsUsable new [] = True"
| "subnetIsUsable new (subnet # existing) =
     (if AvailabilityZone new = AvailabilityZone subnet then False
      else subnetIsUsable new existing)"

text \<open>\<open>strings.Split\<close> with a one-character separator; the result is never empty.\<close>

fun splitOn :: "char \<Rightarrow> string \<Rightarrow> string list" where
  "splitOn sep [] = [[]]"
| "splitOn sep (c # cs) =
     (if c = sep then [] # splitOn sep cs
      else (case splitOn sep cs of
              [] \<Rightarrow> [[c]]
            | p # ps \<Rightarrow> (c # p) # ps))"

text \<open>
  The scheme selects the role tag key; any other scheme is the validation error of
  \<open>ClusterSubnets\<close>.
\<close>

definition schemeKey :: "string \<Rightarrow> error + string" where
  "schemeKey scheme =
     (if scheme = LoadBalancerSchemeEnumInternal then Inr tagNameSubnetInternalELB
      else if scheme = LoadBalancerSchemeEnumInternetFacing then Inr tagNameSubnetPublicELB
      else Inl (InvalidScheme scheme))"

text \<open>
  The loop over the tag index: the inner loop over the tags of one subnet reference,
  and the outer loop over the references. The accumulator is
  \<open>(useableSubnets, out, filterValues)\<close>.
\<close>

fun scanTags ::
  "cache \<Rightarrow> nat \<Rightarrow> string \<Rightarrow> string \<Rightarrow> Tag list \<Rightarrow> Subnet list \<times> string list \<times> string list
     \<Rightarrow> (Subnet list \<times> string list \<times> string list) res" where
  "scanTags c now key arn [] acc = Ret acc"
| "scanTags c now key arn (tag # subnetTags) (useableSubnets, out, filterValues) =
     (if Key tag = key then
        (let subnetID = last (splitOn CHR ''/'' arn) in
         case albcache_Get c now ''ClusterSubnets'' subnetID of
           Some item \<Rightarrow>
             (case item of
                VSubnet s \<Rightarrow>
                  if subnetIsUsable s useableSubnets
                  then scanTags c now key arn subnetTags
                         (useableSubnets @ [s], out @ [SubnetId s], filterValues)
                  else scanTags c now key arn subnetTags (useableSubnets, out, filterValues)
              | _ \<Rightarrow> Panic ''interface conversion: not *ec2.Subnet'')
         | None \<Rightarrow>
             scanTags c now key arn subnetTags (useableSubnets, out, filterValues @ [subnetID]))
      else scanTags c now key arn subnetTags (useableSubnets, out, filterValues))"

fun scanResources ::
  "cache \<Rightarrow> nat \<Rightarrow> string \<Rightarrow> (string \<times> Tag list) list \<Rightarrow> Subnet list \<times> string list \<times> string list
     \<Rightarrow> (Subnet list \<times> string list \<times> string list) res" where
  "scanResources c now key [] acc = Ret acc"
| "scanResources c now key ((arn, subnetTags) # rest) acc =
     (case scanTags c now key arn subnetTags acc of
        Panic p \<Rightarrow> Panic p
      | Ret acc' \<Rightarrow> scanResources c now key rest acc')"

text \<open>The loop over the subnets of the response; the accumulator adds the cache.\<close>

fun admitSubnets ::
  "nat \<Rightarrow> Subnet list \<Rightarrow> cache \<times> Subnet list \<times> string list \<Rightarrow> cache \<times> Subnet list \<times> string list" where
  "admitSubnets now [] acc = acc"
| "admitSubnets now (subnet # rest) (c, useableSubnets, out) =
     (if subnetIsUsable subnet useableSubnets
      then admitSubnets now rest
             (albcache_Set c now ''ClusterSubnets'' (SubnetId subnet) (VSubnet subnet) (Minute * 60),
              useableSubnets @ [subnet], out @ [SubnetId subnet])
      else admitSubnets now rest (c, useableSubnets, out))"

text \<open>
  Modelled from the spec: the ordering of \<open>util.AWSStringSlice\<close> (package
  pkg/util/types), which \<open>sort.Sort\<close> applies to the result, is not part of the
  sources at hand. The spec (4.3) has the identifiers sorted lexicographically.
\<close>

definition AWSStringSlice_Sort :: "string list \<Rightarrow> string list" where
  "AWSStringSlice_Sort out = sort out"

definition ClusterSubnets ::
  "world \<Rightarrow> nat \<Rightarrow> string \<Rightarrow> state \<Rightarrow> (error + string list) res \<times> state" where
  "ClusterSubnets w now scheme st =
     (case schemeKey scheme of
        Inl err \<Rightarrow> (Ret (Inl err), st)
      | Inr key \<Rightarrow>
          let st1 = record_call GetClusterResourcesCall st in
          (case GetClusterResources w of
             Inl err \<Rightarrow> (Ret (Inl (FailedToGetTags err)), st1)
           | Inr resources \<Rightarrow>
               (case scanResources (cache st1) now key resources ([], [], []) of
                  Panic p \<Rightarrow> (Panic p, st1)
                | Ret (useableSubnets, out, filterValues) \<Rightarrow>
                    if length filterValues = 0 then (Ret (Inr (AWSStringSlice_Sort out)), st1)
                    else
                      let input = [\<lparr>Name = ''subnet-id'', Values = filterValues\<rparr>];
                          st2 = record_call (DescribeSubnetsCall input) st1
                      in (case DescribeSubnets w input of
                            Inl err \<Rightarrow> (Ret (Inl (UnableToFetchSubnets input err)), st2)
                          | Inr o' \<Rightarrow>
                              (case admitSubnets now o' (cache st2, useableSubnets, out) of
                                 (c, useableSubnets', out') \<Rightarrow>
                                   if length out' < 2
                                   then (Ret (Inl (UnresolvedSubnets tagNameCluster
                                                     tagNameSubnetInternalELB out')),
                                         st2\<lparr>cache := c\<rparr>)
                                   else (Ret (Inr (AWSStringSlice_Sort out')), st2\<lparr>cache := c\<rparr>))))))"

section \<open>Node health\<close>

text \<open>The loop of \<open>IsNodeHealthy\<close> over the statuses of the response.\<close>

fun scanStatuses ::
  "nat \<Rightarrow> string \<Rightarrow> InstanceStatus list \<Rightarrow> state \<Rightarrow> (bool \<times> error option) \<times> state" where
  "scanStatuses now instanceid [] st = ((False, None), st)"
| "scanStatuses now instanceid (instanceStatus # rest) st =
     (if InstanceId instanceStatus \<noteq> instanceid then scanStatuses now instanceid rest st
      else if InstanceStateCode instanceStatus = 16 then
        ((True, None),
         st\<lparr>cache := albcache_Set (cache st) now ''ec2.IsNodeHealthy'' instanceid (VBool True)
                         IsNodeHealthyCacheTTL\<rparr>)
      else
        ((False, None),
         st\<lparr>cache := albcache_Set (cache st) now ''ec2.IsNodeHealthy'' instanceid (VBool False)
                         IsNodeHealthyCacheTTL\<rparr>))"

definition IsNodeHealthy ::
  "world \<Rightarrow> nat \<Rightarrow> string \<Rightarrow> state \<Rightarrow> (bool \<times> error option) res \<times> state" where
  "IsNodeHealthy w now instanceid st =
     (case albcache_Get (cache st) now ''ec2.IsNodeHealthy'' instanceid of
        Some item \<Rightarrow>
          (case item of
             VBool b \<Rightarrow> (Ret (b, None), st)
           | _ \<Rightarrow> (Panic ''interface conversion: not bool'', st))
      | None \<Rightarrow>
          let in' = [instanceid];
              st1 = record_call (DescribeInstanceStatusCall in') st
          in (case DescribeInstanceStatus w in' of
                Inl err \<Rightarrow> (Ret (False, Some (UnableToDescribeInstanceStatus instanceid err)), st1)
              | Inr o' \<Rightarrow>
                  (case scanStatuses now instanceid o' st1 of
                     (r, st2) \<Rightarrow> (Ret r, st2))))"

section \<open>Deletion of a security group\<close>

text \<open>
  The part of \<open>request.Request\<close> that a retry policy reads, and the \<open>request.Retryer\<close>
  interface as a record of its methods.
\<close>

record Request =
  Error :: "error option"
  RetryCount :: nat

record Retryer =
  RetryRules :: "Request \<Rightarrow> nat"
  ShouldRetry :: "Request \<Rightarrow> bool"
  MaxRetries :: int

text \<open>
  The two methods of \<open>deleteSecurityGroupRetryer\<close>; the argument \<open>r\<close> is the embedded
  retryer. The type assertion \<open>req.Error.(awserr.Error)\<close> succeeds on \<open>AwsErr\<close> only.
\<close>

definition deleteSecurityGroupRetryer_ShouldRetry :: "Retryer \<Rightarrow> Request \<Rightarrow> bool" where
  "deleteSecurityGroupRetryer_ShouldRetry r req =
     (case Error req of
        Some (AwsErr code msg) \<Rightarrow>
          if code = ''DependencyViolation'' then True else ShouldRetry r req
      | _ \<Rightarrow> ShouldRetry r req)"

definition deleteSecurityGroupRetryer_MaxRetries :: "Retryer \<Rightarrow> int" where
  "deleteSecurityGroupRetryer_MaxRetries r = 20"

text \<open>The struct as a retryer: the two methods above, the others from the embedded one.\<close>

definition deleteSecurityGroupRetryer :: "Retryer \<Rightarrow> Retryer" where
  "deleteSecurityGroupRetryer r =
     \<lparr>RetryRules = RetryRules r,
      ShouldRetry = deleteSecurityGroupRetryer_ShouldRetry r,
      MaxRetries = deleteSecurityGroupRetryer_MaxRetries r\<rparr>"

text \<open>
  The loop that sends a request belongs to the transport library (aws-sdk-go,
  \<open>Request.Send\<close> with its retry handlers), which \<open>DeleteSecurityGroupWithContext\<close>
  runs; it is outside the repository. It is given here by the contract of the \<open>Retryer\<close>
  interface it consumes: after a failed attempt the request is sent again when
  \<open>ShouldRetry\<close> says so and the number of retries made so far is below \<open>MaxRetries\<close>;
  each retry increments \<open>RetryCount\<close>. \<open>attempt k\<close> is the outcome of the attempt made
  after \<open>k\<close> retries (\<open>None\<close> is success); every attempt is recorded.
\<close>

function Send ::
  "Retryer \<Rightarrow> (nat \<Rightarrow> error option) \<Rightarrow> call \<Rightarrow> nat \<Rightarrow> state \<Rightarrow> error option \<times> state" where
  "Send r attempt c retryCount st =
     (case attempt retryCount of
        None \<Rightarrow> (None, record_call c st)
      | Some err \<Rightarrow>
          if ShouldRetry r \<lparr>Error = Some err, RetryCount = retryCount\<rparr>
             \<and> int retryCount < MaxRetries r
          then Send r attempt c (retryCount + 1) (record_call c st)
          else (Some err, record_call c st))"
  by pat_completeness auto
termination
  by (relation "measure (\<lambda>(r, attempt, c, retryCount, st). nat (MaxRetries r - int retryCount))")
     auto

declare Send.simps [simp del]

text \<open>
  \<open>DeleteSecurityGroupByID\<close>: the request option replaces the retryer of the request,
  the client's default \<open>defaultRetryer\<close>, by the wrapper around it. \<open>api sgID k\<close> is the
  answer of the inventory API to the attempt after \<open>k\<close> retries.
\<close>

definition DeleteSecurityGroupByID ::
  "Retryer \<Rightarrow> (string \<Rightarrow> nat \<Rightarrow> error option) \<Rightarrow> string \<Rightarrow> state \<Rightarrow> error option \<times> state" where
  "DeleteSecurityGroupByID defaultRetryer api sgID st =
     Send (deleteSecurityGroupRetryer defaultRetryer) (api sgID) (DeleteSecurityGroupCall sgID) 0 st"

section \<open>Concrete collaborators\<close>

text \<open>
  A small inventory used to run the resolvers on concrete inputs: three subnets, the
  first and the third in the same availability zone, all tagged for internal load
  balancers; an inventory API that answers a subnet query by the filters it is given;
  a metadata service and an instance description that resolve to the VPC "vpc-1".
\<close>

definition emptyState :: state where
  "emptyState = \<lparr>cache = Map.empty, calls = []\<rparr>"

definition matchesFilter :: "Subnet \<Rightarrow> Filter \<Rightarrow> bool" where
  "matchesFilter s f =
     (if Name f = ''subnet-id'' then SubnetId s \<in> set (Values f)
      else if Name f = ''tag:Name'' then
        (case EC2Tags_Get (Tags s) ''Name'' of Some n \<Rightarrow> n \<in> set (Values f) | None \<Rightarrow> False)
      else True)"

definition exampleSubnets :: "Subnet list" where
  "exampleSubnets =
     [\<lparr>SubnetId = ''subnet-001'', AvailabilityZone = ''us-east-1a'',
       Tags = [\<lparr>Key = ''Name'', Value = ''subnet-a''\<rparr>,
               \<lparr>Key = ''kubernetes.io/role/internal-elb'', Value = ''1''\<rparr>]\<rparr>,
      \<lparr>SubnetId = ''subnet-002'', AvailabilityZone = ''us-east-1b'',
       Tags = [\<lparr>Key = ''Name'', Value = ''subnet-b''\<rparr>,
               \<lparr>Key = ''kubernetes.io/role/internal-elb'', Value = ''1''\<rparr>]\<rparr>,
      \<lparr>SubnetId = ''subnet-003'', AvailabilityZone = ''us-east-1a'',
       Tags = [\<lparr>Key = ''Name'', Value = ''subnet-c''\<rparr>,
               \<lparr>Key = ''kubernetes.io/role/internal-elb'', Value = ''1''\<rparr>]\<rparr>]"

definition exampleWorld :: world where
  "exampleWorld =
     \<lparr>AWS_VPC_ID = [],
      GetInstanceIdentityDocument = Inr ''i-0a1'',
      DescribeInstances =
        (\<lambda>ids. Inr \<lparr>Reservations = [\<lparr>Instances = [\<lparr>VpcId = Some ''vpc-1''\<rparr>]\<rparr>]\<rparr>),
      DescribeSubnets =
        (\<lambda>filters. Inr (filter (\<lambda>s. list_all (matchesFilter s) filters) exampleSubnets)),
      DescribeSecurityGroups = (\<lambda>filters. Inl (AwsErr ''RequestLimitExceeded'' ''slow down'')),
      DescribeVpcs = (\<lambda>ids. Inr [\<lparr>VpcIdOfVpc = ''vpc-1''\<rparr>]),
      DescribeInstanceStatus = (\<lambda>ids. Inr []),
      GetClusterResources =
        Inr (map (\<lambda>s. (''arn:aws:ec2:us-east-1:1:subnet/'' @ SubnetId s, Tags s)) exampleSubnets)\<rparr>"

text \<open>The same collaborators, with an API that reports statuses for two instances.\<close>

definition runningWorld :: world where
  "runningWorld =
     exampleWorld\<lparr>DescribeInstanceStatus :=
       (\<lambda>ids. Inr [\<lparr>InstanceId = ''i-2'', InstanceStateCode = 16\<rparr>,
                    \<lparr>InstanceId = ''i-1'', InstanceStateCode = 80\<rparr>,
                    \<lparr>InstanceId = ''i-1'', InstanceStateCode = 16\<rparr>])\<rparr>"

text \<open>A default retry policy of the transport that gives up after three retries.\<close>

definition exampleRetryer :: Retryer where
  "exampleRetryer =
     \<lparr>RetryRules = (\<lambda>req. 0),
      ShouldRetry = (\<lambda>req. case Error req of Some (AwsErr code msg) \<Rightarrow> code = ''Throttling'' | _ \<Rightarrow> False),
      MaxRetries = 3\<rparr>"

text \<open>
  An API that answers the first \<open>n\<close> attempts to delete a group with the
  dependency-violation code and the next one with success.
\<close>

definition blockedTimes :: "nat \<Rightarrow> string \<Rightarrow> nat \<Rightarrow> error option" where
  "blockedTimes n sgID k =
     (if k < n then Some (AwsErr ''DependencyViolation'' ''resource has a dependent object'')
      else None)"

text \<open>An API that answers every attempt to delete a group with a throttling failure.\<close>

definition throttledAlways :: "string \<Rightarrow> nat \<Rightarrow> error option" where
  "throttledAlways sgID k = Some (AwsErr ''Throttling'' ''rate exceeded'')"

section \<open>Reference definitions\<close>

text \<open>
  The cache hits and the cache misses of a list of names, stated directly: the cached
  identifiers of the names that are in the cache, in the order of the request, and the
  names that are not. \<open>stringsOnly\<close> says that every cached entry among the names
  holds a string, the type the resolvers by name store and assert.
\<close>

definition cachedIds :: "cache \<Rightarrow> nat \<Rightarrow> string \<Rightarrow> string list \<Rightarrow> string list" where
  "cachedIds c now cacheName names =
     concat (map (\<lambda>n. case albcache_Get c now cacheName n of
                         Some (VString v) \<Rightarrow> [v]
                       | _ \<Rightarrow> []) names)"

definition missedNames :: "cache \<Rightarrow> nat \<Rightarrow> string \<Rightarrow> string list \<Rightarrow> string list" where
  "missedNames c now cacheName names =
     filter (\<lambda>n. albcache_Get c now cacheName n = None) names"

definition stringsOnly :: "cache \<Rightarrow> nat \<Rightarrow> string \<Rightarrow> string list \<Rightarrow> bool" where
  "stringsOnly c now cacheName names =
     list_all (\<lambda>n. case albcache_Get c now cacheName n of
                      Some (VString v) \<Rightarrow> True
                    | Some _ \<Rightarrow> False
                    | None \<Rightarrow> True) names"

text \<open>
  The candidates of a call of \<open>ClusterSubnets\<close> in the order of discovery, stated
  directly: for every reference of the tag index and every tag of it with the role key,
  the subnet cached under the id at the end of the reference; then, when some such id
  is not cached, the subnets the API returns for the ids that are not.
\<close>

definition cachedOfReference :: "cache \<Rightarrow> nat \<Rightarrow> string \<Rightarrow> string \<times> Tag list \<Rightarrow> Subnet list" where
  "cachedOfReference c now key ref =
     (case ref of (arn, subnetTags) \<Rightarrow>
        concat (map (\<lambda>tag. if Key tag = key
                            then (case albcache_Get c now ''ClusterSubnets'' (last (splitOn CHR ''/'' arn)) of
                                    Some (VSubnet s) \<Rightarrow> [s]
                                  | _ \<Rightarrow> [])
                            else []) subnetTags))"

definition missedOfReference :: "cache \<Rightarrow> nat \<Rightarrow> string \<Rightarrow> string \<times> Tag list \<Rightarrow> string list" where
  "missedOfReference c now key ref =
     (case ref of (arn, subnetTags) \<Rightarrow>
        concat (map (\<lambda>tag. if Key tag = key
                            then (case albcache_Get c now ''ClusterSubnets'' (last (splitOn CHR ''/'' arn)) of
                                    None \<Rightarrow> [last (splitOn CHR ''/'' arn)]
                                  | Some _ \<Rightarrow> [])
                            else []) subnetTags))"

definition discovered ::
  "world \<Rightarrow> cache \<Rightarrow> nat \<Rightarrow> string \<Rightarrow> (string \<times> Tag list) list \<Rightarrow> Subnet list" where
  "discovered w c now key resources =
     concat (map (cachedOfReference c now key) resources)
     @ (if concat (map (missedOfReference c now key) resources) = [] then []
        else (case DescribeSubnets w
                     [\<lparr>Name = ''subnet-id'',
                       Values = concat (map (missedOfReference c now key) resources)\<rparr>] of
                Inr subnets \<Rightarrow> subnets
              | Inl err \<Rightarrow> []))"

text \<open>
  Deduplication by availability zone in the words of the spec: the candidates are
  visited in order, and a candidate is admitted only if no candidate admitted before
  it shares its zone.
\<close>

fun admitInOrder :: "Subnet list \<Rightarrow> Subnet list \<Rightarrow> Subnet list" where
  "admitInOrder admitted [] = admitted"
| "admitInOrder admitted (candidate # candidates) =
     (if AvailabilityZone candidate \<in> set (map AvailabilityZone admitted)
      then admitInOrder admitted candidates
      else admitInOrder (admitted @ [candidate]) candidates)"

section \<open>Evaluation on concrete inputs\<close>

lemmas example_defs = emptyState_def exampleWorld_def exampleSubnets_def matchesFilter_def

lemmas cache_defs = albcache_Get_def albcache_Set_def record_call_def Minute_def Let_def

lemmas vpc_defs = GetVPCID_def instanceVPCIsValid_def

lemmas cluster_defs = ClusterSubnets_def AWSStringSlice_Sort_def

lemmas scheme_defs = schemeKey_def LoadBalancerSchemeEnumInternal_def
  LoadBalancerSchemeEnumInternetFacing_def tagNameSubnetInternalELB_def
  tagNameSubnetPublicELB_def tagNameCluster_def

section \<open>Cluster subnets: the scheme\<close>



section \<open>Cluster subnets: fewer than two admitted subnets\<close>

text \<open>
  Claim C1, evaluated. A first call at time 0 finds the three tagged subnets, none
  cached, and admits and caches "subnet-001" and "subnet-002". At time 1 the tag index
  lists the role tag on "subnet-001" only; the one candidate is a cache hit, nothing
  is left to query, and the call returns the single identifier with no error: the
  return for an empty query list comes before the check of the number of subnets.
\<close>

theorem ClusterSubnets_all_cached_returns_one:
  "fst (ClusterSubnets exampleWorld 0 ''internal'' emptyState)
     = Ret (Inr [''subnet-001'', ''subnet-002''])
   \<and> fst (ClusterSubnets
            (exampleWorld\<lparr>GetClusterResources :=
               Inr [(''arn:aws:ec2:us-east-1:1:subnet/subnet-001'',
                     [\<lparr>Key = ''kubernetes.io/role/internal-elb'', Value = ''1''\<rparr>])]\<rparr>)
            1 ''internal''
            (snd (ClusterSubnets exampleWorld 0 ''internal'' emptyState)))
     = Ret (Inr [''subnet-001''])"
  by (simp add: example_defs cache_defs cluster_defs scheme_defs)

section \<open>Subnets by name: the query for the misses\<close>

text \<open>
  Claim C3, evaluated on the scenario of the spec. With "subnet-a" cached as
  "subnet-001" and the request for "subnet-a" and "subnet-b", one query is sent, and
  its name filter holds both requested names, not "subnet-b" alone; the API answers
  for both, so the result holds "subnet-001" twice.
\<close>

theorem GetSubnets_query_holds_all_names:
  "(case GetSubnets (exampleWorld\<lparr>AWS_VPC_ID := ''vpc-1''\<rparr>) 0 [''subnet-a'', ''subnet-b'']
          \<lparr>cache = [(''EC2.GetSubnets'', ''subnet-a'') \<mapsto> (VString ''subnet-001'', 100)],
           calls = []\<rparr>
    of (r, st) \<Rightarrow> (r, calls st))
   = (Ret ([''subnet-001'', ''subnet-001'', ''subnet-002''], None),
      [DescribeSubnetsCall [\<lparr>Name = ''tag:Name'', Values = [''subnet-a'', ''subnet-b'']\<rparr>,
                            \<lparr>Name = ''vpc-id'', Values = [''vpc-1'']\<rparr>]])"
  by (simp add: example_defs cache_defs vpc_defs GetSubnets_def GetSubnetsCacheTTL_def)

section \<open>The cache namespace of the VPC locator\<close>

text \<open>
  Claim C5, evaluated. \<open>GetVPCID\<close> and \<open>GetVPC\<close> read and write the same namespace
  "EC2.GetVPCID"; the key of the first is the empty string, the key of the second is the
  id it is given. After \<open>GetVPCID\<close> has cached the id of the VPC, \<open>GetVPC\<close> with the empty
  id reads that entry, and its type assertion fails.
\<close>

theorem GetVPC_reads_entry_of_GetVPCID:
  "fst (GetVPCID exampleWorld 0 emptyState) = Ret (Inr ''vpc-1'')
   \<and> fst (GetVPC exampleWorld 1 [] (snd (GetVPCID exampleWorld 0 emptyState)))
     = Panic ''interface conversion: not *ec2.Vpc''"
  by (simp add: example_defs cache_defs vpc_defs GetVPC_def)

section \<open>Validation of the instance description\<close>

text \<open>
  Claim C9, evaluated. For a response with two reservations of which the first holds
  no instance, the message reports "2 instances": the number of reservations, where
  the number of instances found, 0, is the count at fault.
\<close>

theorem instanceVPCIsValid_reports_reservations_as_instances:
  "instanceVPCIsValid
     \<lparr>Reservations = [\<lparr>Instances = []\<rparr>, \<lparr>Instances = [\<lparr>VpcId = Some ''vpc-1''\<rparr>]\<rparr>]\<rparr>
   = Some (Errorf (''When looking up VPC ID could not identify instance. Found 2 instances''
                   @ '' in AWS call. Should have found atleast 1.''))"
  by (simp add: instanceVPCIsValid_def showNat.simps)

section \<open>The VPC locator: order of resolution\<close>

text \<open>
  Claim C6. \<open>GetVPCID\<close> resolves in a fixed order. (1) With the environment override
  set, the override is returned and the state is unchanged: no request is recorded.
  (2) Otherwise, with an entry under the fixed key that has not expired, the cached id
  is returned, again with the state unchanged. (3) Otherwise the identity document is
  fetched and then the instance it names is described; when the response passes the
  validation, the VPC id of the first instance is returned and stored under the fixed
  key, where a read finds it for 60 minutes and no longer.
\<close>

theorem GetVPCID_resolution_order:
  "(AWS_VPC_ID w \<noteq> [] \<longrightarrow> GetVPCID w now st = (Ret (Inr (AWS_VPC_ID w)), st))
   \<and> (AWS_VPC_ID w = [] \<and> albcache_Get (cache st) now ''EC2.GetVPCID'' [] = Some (VString v)
        \<longrightarrow> GetVPCID w now st = (Ret (Inr v), st))
   \<and> (AWS_VPC_ID w = [] \<and> albcache_Get (cache st) now ''EC2.GetVPCID'' [] = None
        \<and> GetInstanceIdentityDocument w = Inr instanceID
        \<and> DescribeInstances w [instanceID] = Inr out
        \<and> instanceVPCIsValid out = None
        \<longrightarrow> (\<exists>vpc. VpcId (hd (Instances (hd (Reservations out)))) = Some vpc
              \<and> GetVPCID w now st
                  = (Ret (Inr vpc),
                     st\<lparr>calls := calls st @ [GetInstanceIdentityDocumentCall,
                                             DescribeInstancesCall [instanceID]],
                        cache := (cache st)((''EC2.GetVPCID'', []) \<mapsto> (VString vpc, now + 60 * Minute))\<rparr>)
              \<and> (\<forall>t. albcache_Get ((cache st)((''EC2.GetVPCID'', []) \<mapsto> (VString vpc, now + 60 * Minute)))
                        t ''EC2.GetVPCID'' []
                      = (if t < now + 60 * Minute then Some (VString vpc) else None))))"
proof (intro conjI impI)
  assume "AWS_VPC_ID w \<noteq> []"
  then show "GetVPCID w now st = (Ret (Inr (AWS_VPC_ID w)), st)"
    by (simp add: GetVPCID_def)
next
  assume "AWS_VPC_ID w = [] \<and> albcache_Get (cache st) now ''EC2.GetVPCID'' [] = Some (VString v)"
  then show "GetVPCID w now st = (Ret (Inr v), st)"
    by (simp add: GetVPCID_def)
next
  assume h: "AWS_VPC_ID w = [] \<and> albcache_Get (cache st) now ''EC2.GetVPCID'' [] = None
        \<and> GetInstanceIdentityDocument w = Inr instanceID
        \<and> DescribeInstances w [instanceID] = Inr out
        \<and> instanceVPCIsValid out = None"
  then obtain vpc where vpc: "VpcId (hd (Instances (hd (Reservations out)))) = Some vpc"
    by (auto simp: instanceVPCIsValid_def split: if_splits)
  have run: "GetVPCID w now st
                  = (Ret (Inr vpc),
                     st\<lparr>calls := calls st @ [GetInstanceIdentityDocumentCall,
                                             DescribeInstancesCall [instanceID]],
                        cache := (cache st)((''EC2.GetVPCID'', []) \<mapsto> (VString vpc, now + 60 * Minute))\<rparr>)"
    using h vpc by (simp add: GetVPCID_def record_call_def albcache_Set_def Let_def mult.commute)
  have ttl: "\<forall>t. albcache_Get ((cache st)((''EC2.GetVPCID'', []) \<mapsto> (VString vpc, now + 60 * Minute)))
                        t ''EC2.GetVPCID'' []
                      = (if t < now + 60 * Minute then Some (VString vpc) else None)"
    by (simp add: albcache_Get_def)
  from vpc run ttl
  show "\<exists>vpc. VpcId (hd (Instances (hd (Reservations out)))) = Some vpc
              \<and> GetVPCID w now st
                  = (Ret (Inr vpc),
                     st\<lparr>calls := calls st @ [GetInstanceIdentityDocumentCall,
                                             DescribeInstancesCall [instanceID]],
                        cache := (cache st)((''EC2.GetVPCID'', []) \<mapsto> (VString vpc, now + 60 * Minute))\<rparr>)
              \<and> (\<forall>t. albcache_Get ((cache st)((''EC2.GetVPCID'', []) \<mapsto> (VString vpc, now + 60 * Minute)))
                        t ''EC2.GetVPCID'' []
                      = (if t < now + 60 * Minute then Some (VString vpc) else None))"
    by blast
qed

theorem GetVPCID_resolution_order_witness:
  "GetVPCID (exampleWorld\<lparr>AWS_VPC_ID := ''vpc-9''\<rparr>) 0 emptyState = (Ret (Inr ''vpc-9''), emptyState)
   \<and> GetVPCID exampleWorld 5 \<lparr>cache = [(''EC2.GetVPCID'', []) \<mapsto> (VString ''vpc-7'', 10)], calls = []\<rparr>
       = (Ret (Inr ''vpc-7''), \<lparr>cache = [(''EC2.GetVPCID'', []) \<mapsto> (VString ''vpc-7'', 10)], calls = []\<rparr>)
   \<and> GetVPCID exampleWorld 0 emptyState
       = (Ret (Inr ''vpc-1''),
          \<lparr>cache = [(''EC2.GetVPCID'', []) \<mapsto> (VString ''vpc-1'', 60 * Minute)],
           calls = [GetInstanceIdentityDocumentCall, DescribeInstancesCall [''i-0a1'']]\<rparr>)"
  using GetVPCID_resolution_order [of "exampleWorld\<lparr>AWS_VPC_ID := ''vpc-9''\<rparr>" 0 emptyState]
        GetVPCID_resolution_order [of exampleWorld 5
          "\<lparr>cache = [(''EC2.GetVPCID'', []) \<mapsto> (VString ''vpc-7'', 10)], calls = []\<rparr>" "''vpc-7''"]
        GetVPCID_resolution_order [of exampleWorld 0 emptyState _ "''i-0a1''"
          "\<lparr>Reservations = [\<lparr>Instances = [\<lparr>VpcId = Some ''vpc-1''\<rparr>]\<rparr>]\<rparr>"]
  by (simp add: example_defs albcache_Get_def instanceVPCIsValid_def)

section \<open>Node health\<close>

lemma scanStatuses_calls: "calls (snd (scanStatuses now i sts st)) = calls st"
  by (induction sts) auto

lemma scanStatuses_absent:
  "i \<notin> InstanceId ` set sts \<Longrightarrow> scanStatuses now i sts st = ((False, None), st)"
  by (induction sts) auto

lemma scanStatuses_present:
  "find (\<lambda>s. InstanceId s = i) sts = Some s \<Longrightarrow>
   scanStatuses now i sts st
     = ((InstanceStateCode s = 16, None),
        st\<lparr>cache := (cache st)((''ec2.IsNodeHealthy'', i) \<mapsto> (VBool (InstanceStateCode s = 16), now + 5 * Minute))\<rparr>)"
  by (induction sts) (auto simp: albcache_Set_def IsNodeHealthyCacheTTL_def mult.commute)

lemma albcache_Get_miss_later:
  "albcache_Get c now ns k = None \<Longrightarrow> now \<le> now' \<Longrightarrow> albcache_Get c now' ns k = None"
  by (auto simp: albcache_Get_def split: option.splits if_splits)

lemma IsNodeHealthy_miss_calls:
  "albcache_Get (cache st) now ''ec2.IsNodeHealthy'' i = None \<Longrightarrow>
   calls (snd (IsNodeHealthy w now i st)) = calls st @ [DescribeInstanceStatusCall [i]]"
  by (simp add: IsNodeHealthy_def Let_def record_call_def scanStatuses_calls case_prod_beta
           split: sum.splits)

text \<open>
  Claim C8. On a cache miss with a successful status query: when no status in the
  response carries the instance id, the call returns false and changes nothing in the
  cache, and a next call for the same id, at the same or a later time and whatever the
  API then answers, sends a query again; when a status carries the id, the verdict of
  the first such status (its state code is 16) is returned and cached, where a read
  finds it for 5 minutes and no longer.
\<close>

theorem IsNodeHealthy_absent_not_cached:
  "albcache_Get (cache st) now ''ec2.IsNodeHealthy'' i = None
   \<and> DescribeInstanceStatus w [i] = Inr sts
   \<longrightarrow>
   (i \<notin> InstanceId ` set sts
      \<longrightarrow> IsNodeHealthy w now i st
            = (Ret (False, None), st\<lparr>calls := calls st @ [DescribeInstanceStatusCall [i]]\<rparr>)
          \<and> (\<forall>w' now'. now \<le> now'
                \<longrightarrow> calls (snd (IsNodeHealthy w' now' i (snd (IsNodeHealthy w now i st))))
                      = calls st @ [DescribeInstanceStatusCall [i], DescribeInstanceStatusCall [i]]))
   \<and> (\<forall>s. find (\<lambda>s. InstanceId s = i) sts = Some s
      \<longrightarrow> IsNodeHealthy w now i st
            = (Ret (InstanceStateCode s = 16, None),
               st\<lparr>calls := calls st @ [DescribeInstanceStatusCall [i]],
                  cache := (cache st)((''ec2.IsNodeHealthy'', i)
                              \<mapsto> (VBool (InstanceStateCode s = 16), now + 5 * Minute))\<rparr>)
          \<and> (\<forall>t. albcache_Get ((cache st)((''ec2.IsNodeHealthy'', i)
                              \<mapsto> (VBool (InstanceStateCode s = 16), now + 5 * Minute)))
                      t ''ec2.IsNodeHealthy'' i
                    = (if t < now + 5 * Minute then Some (VBool (InstanceStateCode s = 16)) else None)))"
proof (intro impI conjI allI)
  assume h: "albcache_Get (cache st) now ''ec2.IsNodeHealthy'' i = None
   \<and> DescribeInstanceStatus w [i] = Inr sts"
  assume a: "i \<notin> InstanceId ` set sts"
  from h a show r: "IsNodeHealthy w now i st
            = (Ret (False, None), st\<lparr>calls := calls st @ [DescribeInstanceStatusCall [i]]\<rparr>)"
    by (simp add: IsNodeHealthy_def Let_def scanStatuses_absent record_call_def)
  fix w' now' assume le: "now \<le> (now' :: nat)"
  from h le have "albcache_Get (cache (st\<lparr>calls := calls st @ [DescribeInstanceStatusCall [i]]\<rparr>))
        now' ''ec2.IsNodeHealthy'' i = None"
    using albcache_Get_miss_later [of "cache st" now "''ec2.IsNodeHealthy''" i now'] by simp
  from IsNodeHealthy_miss_calls [OF this, of w'] r
  show "calls (snd (IsNodeHealthy w' now' i (snd (IsNodeHealthy w now i st))))
                      = calls st @ [DescribeInstanceStatusCall [i], DescribeInstanceStatusCall [i]]"
    by simp
next
  fix s
  assume h: "albcache_Get (cache st) now ''ec2.IsNodeHealthy'' i = None
   \<and> DescribeInstanceStatus w [i] = Inr sts"
  assume f: "find (\<lambda>s. InstanceId s = i) sts = Some s"
  from h show "IsNodeHealthy w now i st
            = (Ret (InstanceStateCode s = 16, None),
               st\<lparr>calls := calls st @ [DescribeInstanceStatusCall [i]],
                  cache := (cache st)((''ec2.IsNodeHealthy'', i)
                              \<mapsto> (VBool (InstanceStateCode s = 16), now + 5 * Minute))\<rparr>)"
    by (simp add: IsNodeHealthy_def Let_def scanStatuses_present [OF f] record_call_def)
next
  fix s :: InstanceStatus and t
  show "albcache_Get ((cache st)((''ec2.IsNodeHealthy'', i)
                              \<mapsto> (VBool (InstanceStateCode s = 16), now + 5 * Minute)))
                      t ''ec2.IsNodeHealthy'' i
                    = (if t < now + 5 * Minute then Some (VBool (InstanceStateCode s = 16)) else None)"
    by (simp add: albcache_Get_def)
qed

theorem IsNodeHealthy_absent_not_cached_witness:
  "IsNodeHealthy exampleWorld 0 ''i-1'' emptyState
     = (Ret (False, None),
        emptyState\<lparr>calls := calls emptyState @ [DescribeInstanceStatusCall [''i-1'']]\<rparr>)
   \<and> calls (snd (IsNodeHealthy runningWorld 7 ''i-1''
                   (snd (IsNodeHealthy exampleWorld 0 ''i-1'' emptyState))))
       = calls emptyState @ [DescribeInstanceStatusCall [''i-1''], DescribeInstanceStatusCall [''i-1'']]
   \<and> IsNodeHealthy runningWorld 0 ''i-1'' emptyState
       = (Ret (False, None),
          emptyState\<lparr>calls := calls emptyState @ [DescribeInstanceStatusCall [''i-1'']],
                     cache := (cache emptyState)((''ec2.IsNodeHealthy'', ''i-1'')
                                 \<mapsto> (VBool False, 0 + 5 * Minute))\<rparr>)"
proof -
  have miss: "albcache_Get (cache emptyState) 0 ''ec2.IsNodeHealthy'' ''i-1'' = None"
    by (simp add: emptyState_def albcache_Get_def)
  have none: "DescribeInstanceStatus exampleWorld [''i-1''] = Inr []"
    by (simp add: exampleWorld_def)
  have absent: "''i-1'' \<notin> InstanceId ` set ([] :: InstanceStatus list)"
    by simp
  have some: "DescribeInstanceStatus runningWorld [''i-1'']
      = Inr [\<lparr>InstanceId = ''i-2'', InstanceStateCode = 16\<rparr>,
             \<lparr>InstanceId = ''i-1'', InstanceStateCode = 80\<rparr>,
             \<lparr>InstanceId = ''i-1'', InstanceStateCode = 16\<rparr>]"
    by (simp add: runningWorld_def)
  have first: "find (\<lambda>s. InstanceId s = ''i-1'')
        [\<lparr>InstanceId = ''i-2'', InstanceStateCode = 16\<rparr>,
         \<lparr>InstanceId = ''i-1'', InstanceStateCode = 80\<rparr>,
         \<lparr>InstanceId = ''i-1'', InstanceStateCode = 16\<rparr>]
      = Some \<lparr>InstanceId = ''i-1'', InstanceStateCode = 80\<rparr>"
    by simp
  from IsNodeHealthy_absent_not_cached [of emptyState 0 "''i-1''" exampleWorld "[]"]
       miss none absent
  have a: "IsNodeHealthy exampleWorld 0 ''i-1'' emptyState
     = (Ret (False, None),
        emptyState\<lparr>calls := calls emptyState @ [DescribeInstanceStatusCall [''i-1'']]\<rparr>)"
    and b: "\<forall>w' now'. 0 \<le> now'
                \<longrightarrow> calls (snd (IsNodeHealthy w' now' ''i-1'' (snd (IsNodeHealthy exampleWorld 0 ''i-1'' emptyState))))
                      = calls emptyState @ [DescribeInstanceStatusCall [''i-1''], DescribeInstanceStatusCall [''i-1'']]"
    by blast+
  from IsNodeHealthy_absent_not_cached [of emptyState 0 "''i-1''" runningWorld] miss some first
  have c: "IsNodeHealthy runningWorld 0 ''i-1'' emptyState
       = (Ret (False, None),
          emptyState\<lparr>calls := calls emptyState @ [DescribeInstanceStatusCall [''i-1'']],
                     cache := (cache emptyState)((''ec2.IsNodeHealthy'', ''i-1'')
                                 \<mapsto> (VBool False, 0 + 5 * Minute))\<rparr>)"
    by fastforce
  from a b c show ?thesis by simp
qed

section \<open>Resolution by name: a failed query\<close>

lemma lookupNames_hits_misses:
  "stringsOnly c now ns names \<Longrightarrow>
   lookupNames c now ns names (found, q)
     = Ret (found @ cachedIds c now ns names, q @ missedNames c now ns names)"
proof (induction names arbitrary: found q)
  case Nil
  then show ?case by (simp add: cachedIds_def missedNames_def)
next
  case (Cons n names)
  then show ?case
    by (auto simp: cachedIds_def missedNames_def stringsOnly_def split: option.splits cval.splits)
qed

lemma GetVPCID_other_namespace:
  "GetVPCID w now st = (r, st1) \<Longrightarrow> ns \<noteq> ''EC2.GetVPCID'' \<Longrightarrow>
   albcache_Get (cache st1) t ns k = albcache_Get (cache st) t ns k"
  by (auto simp: GetVPCID_def albcache_Get_def albcache_Set_def record_call_def Let_def
           split: if_splits option.splits cval.splits sum.splits)

lemma GetVPCID_cachedIds:
  "GetVPCID w now st = (r, st1) \<Longrightarrow> ns \<noteq> ''EC2.GetVPCID'' \<Longrightarrow>
   cachedIds (cache st1) now ns names = cachedIds (cache st) now ns names
   \<and> missedNames (cache st1) now ns names = missedNames (cache st) now ns names
   \<and> stringsOnly (cache st1) now ns names = stringsOnly (cache st) now ns names"
  by (simp add: cachedIds_def missedNames_def stringsOnly_def GetVPCID_other_namespace)

text \<open>
  Claim C10. When the VPC id is resolved, every cached entry among the names holds a
  string, at least one name is a miss, and the batched query fails, \<open>GetSubnets\<close>
  returns the identifiers of the cache hits together with an error that wraps the
  failure; so does \<open>GetSecurityGroups\<close>.
\<close>

theorem failed_query_keeps_cache_hits:
  "GetVPCID w now st = (Ret (Inr vpcID), st1)
   \<longrightarrow>
   (stringsOnly (cache st) now ''EC2.GetSubnets'' names
    \<and> missedNames (cache st) now ''EC2.GetSubnets'' names \<noteq> []
    \<and> DescribeSubnets w [\<lparr>Name = ''tag:Name'', Values = names\<rparr>,
                          \<lparr>Name = ''vpc-id'', Values = [vpcID]\<rparr>] = Inl e
    \<longrightarrow> fst (GetSubnets w now names st)
          = Ret (cachedIds (cache st) now ''EC2.GetSubnets'' names,
                 Some (UnableToFetchSubnets [\<lparr>Name = ''tag:Name'', Values = names\<rparr>,
                                             \<lparr>Name = ''vpc-id'', Values = [vpcID]\<rparr>] e)))
   \<and>
   (stringsOnly (cache st) now ''EC2.GetSecurityGroups'' names
    \<and> missedNames (cache st) now ''EC2.GetSecurityGroups'' names \<noteq> []
    \<and> DescribeSecurityGroups w
         [\<lparr>Name = ''tag:Name'', Values = missedNames (cache st) now ''EC2.GetSecurityGroups'' names\<rparr>,
          \<lparr>Name = ''vpc-id'', Values = [vpcID]\<rparr>] = Inl e'
    \<longrightarrow> fst (GetSecurityGroups w now names st)
          = Ret (cachedIds (cache st) now ''EC2.GetSecurityGroups'' names,
                 Some (UnableToFetchSecurityGroups
                         [\<lparr>Name = ''tag:Name'',
                            Values = missedNames (cache st) now ''EC2.GetSecurityGroups'' names\<rparr>,
                          \<lparr>Name = ''vpc-id'', Values = [vpcID]\<rparr>] e')))"
proof (intro impI conjI)
  assume v: "GetVPCID w now st = (Ret (Inr vpcID), st1)"
  assume h: "stringsOnly (cache st) now ''EC2.GetSubnets'' names
    \<and> missedNames (cache st) now ''EC2.GetSubnets'' names \<noteq> []
    \<and> DescribeSubnets w [\<lparr>Name = ''tag:Name'', Values = names\<rparr>,
                          \<lparr>Name = ''vpc-id'', Values = [vpcID]\<rparr>] = Inl e"
  have ns: "''EC2.GetSubnets'' \<noteq> ''EC2.GetVPCID''" by simp
  note eqs = GetVPCID_cachedIds [OF v ns, of names]
  from h eqs have l: "lookupNames (cache st1) now ''EC2.GetSubnets'' names ([], [])
     = Ret (cachedIds (cache st) now ''EC2.GetSubnets'' names,
            missedNames (cache st) now ''EC2.GetSubnets'' names)"
    using lookupNames_hits_misses [of "cache st1" now "''EC2.GetSubnets''" names "[]" "[]"]
    by simp
  show "fst (GetSubnets w now names st)
          = Ret (cachedIds (cache st) now ''EC2.GetSubnets'' names,
                 Some (UnableToFetchSubnets [\<lparr>Name = ''tag:Name'', Values = names\<rparr>,
                                             \<lparr>Name = ''vpc-id'', Values = [vpcID]\<rparr>] e))"
    using h by (simp add: GetSubnets_def v l Let_def)
next
  assume v: "GetVPCID w now st = (Ret (Inr vpcID), st1)"
  assume h: "stringsOnly (cache st) now ''EC2.GetSecurityGroups'' names
    \<and> missedNames (cache st) now ''EC2.GetSecurityGroups'' names \<noteq> []
    \<and> DescribeSecurityGroups w
         [\<lparr>Name = ''tag:Name'', Values = missedNames (cache st) now ''EC2.GetSecurityGroups'' names\<rparr>,
          \<lparr>Name = ''vpc-id'', Values = [vpcID]\<rparr>] = Inl e'"
  have ns: "''EC2.GetSecurityGroups'' \<noteq> ''EC2.GetVPCID''" by simp
  note eqs = GetVPCID_cachedIds [OF v ns, of names]
  from h eqs have l: "lookupNames (cache st1) now ''EC2.GetSecurityGroups'' names ([], [])
     = Ret (cachedIds (cache st) now ''EC2.GetSecurityGroups'' names,
            missedNames (cache st) now ''EC2.GetSecurityGroups'' names)"
    using lookupNames_hits_misses [of "cache st1" now "''EC2.GetSecurityGroups''" names "[]" "[]"]
    by simp
  show "fst (GetSecurityGroups w now names st)
          = Ret (cachedIds (cache st) now ''EC2.GetSecurityGroups'' names,
                 Some (UnableToFetchSecurityGroups
                         [\<lparr>Name = ''tag:Name'',
                            Values = missedNames (cache st) now ''EC2.GetSecurityGroups'' names\<rparr>,
                          \<lparr>Name = ''vpc-id'', Values = [vpcID]\<rparr>] e'))"
    using h by (simp add: GetSecurityGroups_def v l Let_def)
qed

theorem failed_query_keeps_cache_hits_witness:
  "fst (GetSubnets
          (exampleWorld\<lparr>AWS_VPC_ID := ''vpc-1'',
                         DescribeSubnets := (\<lambda>filters. Inl (AwsErr ''RequestLimitExceeded'' ''slow down''))\<rparr>)
          0 [''subnet-a'', ''subnet-b'']
          \<lparr>cache = [(''EC2.GetSubnets'', ''subnet-a'') \<mapsto> (VString ''subnet-001'', 100),
                    (''EC2.GetSecurityGroups'', ''sg-a'') \<mapsto> (VString ''sg-001'', 100)],
           calls = []\<rparr>)
     = Ret ([''subnet-001''],
            Some (UnableToFetchSubnets
                    [\<lparr>Name = ''tag:Name'', Values = [''subnet-a'', ''subnet-b'']\<rparr>,
                     \<lparr>Name = ''vpc-id'', Values = [''vpc-1'']\<rparr>]
                    (AwsErr ''RequestLimitExceeded'' ''slow down'')))
   \<and> fst (GetSecurityGroups
          (exampleWorld\<lparr>AWS_VPC_ID := ''vpc-1'',
                         DescribeSubnets := (\<lambda>filters. Inl (AwsErr ''RequestLimitExceeded'' ''slow down''))\<rparr>)
          0 [''sg-a'', ''sg-b'']
          \<lparr>cache = [(''EC2.GetSubnets'', ''subnet-a'') \<mapsto> (VString ''subnet-001'', 100),
                    (''EC2.GetSecurityGroups'', ''sg-a'') \<mapsto> (VString ''sg-001'', 100)],
           calls = []\<rparr>)
     = Ret ([''sg-001''],
            Some (UnableToFetchSecurityGroups
                    [\<lparr>Name = ''tag:Name'', Values = [''sg-b'']\<rparr>,
                     \<lparr>Name = ''vpc-id'', Values = [''vpc-1'']\<rparr>]
                    (AwsErr ''RequestLimitExceeded'' ''slow down'')))"
  using failed_query_keeps_cache_hits
          [of "exampleWorld\<lparr>AWS_VPC_ID := ''vpc-1'',
                 DescribeSubnets := (\<lambda>filters. Inl (AwsErr ''RequestLimitExceeded'' ''slow down''))\<rparr>"
              0
              "\<lparr>cache = [(''EC2.GetSubnets'', ''subnet-a'') \<mapsto> (VString ''subnet-001'', 100),
                         (''EC2.GetSecurityGroups'', ''sg-a'') \<mapsto> (VString ''sg-001'', 100)],
                calls = []\<rparr>"
              "''vpc-1''"
              "\<lparr>cache = [(''EC2.GetSubnets'', ''subnet-a'') \<mapsto> (VString ''subnet-001'', 100),
                         (''EC2.GetSecurityGroups'', ''sg-a'') \<mapsto> (VString ''sg-001'', 100)],
                calls = []\<rparr>"
              "[''subnet-a'', ''subnet-b'']"
              "AwsErr ''RequestLimitExceeded'' ''slow down''"]
        failed_query_keeps_cache_hits
          [of "exampleWorld\<lparr>AWS_VPC_ID := ''vpc-1'',
                 DescribeSubnets := (\<lambda>filters. Inl (AwsErr ''RequestLimitExceeded'' ''slow down''))\<rparr>"
              0
              "\<lparr>cache = [(''EC2.GetSubnets'', ''subnet-a'') \<mapsto> (VString ''subnet-001'', 100),
                         (''EC2.GetSecurityGroups'', ''sg-a'') \<mapsto> (VString ''sg-001'', 100)],
                calls = []\<rparr>"
              "''vpc-1''"
              "\<lparr>cache = [(''EC2.GetSubnets'', ''subnet-a'') \<mapsto> (VString ''subnet-001'', 100),
                         (''EC2.GetSecurityGroups'', ''sg-a'') \<mapsto> (VString ''sg-001'', 100)],
                calls = []\<rparr>"
              "[''sg-a'', ''sg-b'']" _
              "AwsErr ''RequestLimitExceeded'' ''slow down''"]
  by (simp add: example_defs albcache_Get_def GetVPCID_def cachedIds_def missedNames_def
                stringsOnly_def)

section \<open>Cluster subnets: one subnet per availability zone\<close>

lemma subnetIsUsable_iff:
  "subnetIsUsable new existing \<longleftrightarrow> AvailabilityZone new \<notin> set (map AvailabilityZone existing)"
  by (induction existing) auto

lemma admitInOrder_append:
  "admitInOrder a (xs @ ys) = admitInOrder (admitInOrder a xs) ys"
  by (induction xs arbitrary: a) auto

lemma admitInOrder_distinct:
  "distinct (map AvailabilityZone a) \<Longrightarrow> distinct (map AvailabilityZone (admitInOrder a xs))"
  by (induction xs arbitrary: a) auto

lemma scanTags_admits:
  "scanTags c now key arn subnetTags (u, out, fv) = Ret (u', out', fv')
   \<Longrightarrow> out = map SubnetId u
   \<Longrightarrow> u' = admitInOrder u (cachedOfReference c now key (arn, subnetTags))
       \<and> out' = map SubnetId u'
       \<and> fv' = fv @ missedOfReference c now key (arn, subnetTags)"
proof (induction subnetTags arbitrary: u out fv)
  case Nil
  then show ?case by (auto simp: cachedOfReference_def missedOfReference_def)
next
  case (Cons tag subnetTags)
  show ?case
  proof (cases "Key tag = key")
    case False
    with Cons.prems Cons.IH [of u out fv] show ?thesis
      by (simp add: cachedOfReference_def missedOfReference_def)
  next
    case True
    show ?thesis
    proof (cases "albcache_Get c now ''ClusterSubnets'' (last (splitOn CHR ''/'' arn))")
      case None
      with True Cons.prems
        Cons.IH [of u out "fv @ [last (splitOn CHR ''/'' arn)]"]
      show ?thesis
        by (simp add: cachedOfReference_def missedOfReference_def Let_def)
    next
      case (Some item)
      with True Cons.prems obtain s where item: "item = VSubnet s"
        by (cases item) (simp_all add: Let_def)
      show ?thesis
      proof (cases "subnetIsUsable s u")
        case usable: True
        with True Some item Cons.prems
          Cons.IH [of "u @ [s]" "out @ [SubnetId s]" fv]
        show ?thesis
          by (simp add: cachedOfReference_def missedOfReference_def Let_def subnetIsUsable_iff)
      next
        case unusable: False
        with True Some item Cons.prems Cons.IH [of u out fv]
        show ?thesis
          by (simp add: cachedOfReference_def missedOfReference_def Let_def subnetIsUsable_iff)
      qed
    qed
  qed
qed

lemma scanResources_admits:
  "scanResources c now key resources (u, out, fv) = Ret (u', out', fv')
   \<Longrightarrow> out = map SubnetId u
   \<Longrightarrow> u' = admitInOrder u (concat (map (cachedOfReference c now key) resources))
       \<and> out' = map SubnetId u'
       \<and> fv' = fv @ concat (map (missedOfReference c now key) resources)"
proof (induction resources arbitrary: u out fv)
  case Nil
  then show ?case by auto
next
  case (Cons ref resources)
  obtain arn subnetTags where ref: "ref = (arn, subnetTags)" by (cases ref)
  from Cons.prems ref obtain u1 out1 fv1
    where one: "scanTags c now key arn subnetTags (u, out, fv) = Ret (u1, out1, fv1)"
      and rest: "scanResources c now key resources (u1, out1, fv1) = Ret (u', out', fv')"
    by (auto split: res.splits)
  from scanTags_admits [OF one Cons.prems(2)]
  have s1: "u1 = admitInOrder u (cachedOfReference c now key (arn, subnetTags))"
    and s2: "out1 = map SubnetId u1"
    and s3: "fv1 = fv @ missedOfReference c now key (arn, subnetTags)"
    by simp_all
  from Cons.IH [OF rest s2] s1 s3 ref show ?case
    by (simp add: admitInOrder_append)
qed

lemma admitSubnets_admits:
  "admitSubnets now subnets (c, u, out) = (c', u', out')
   \<Longrightarrow> out = map SubnetId u
   \<Longrightarrow> u' = admitInOrder u subnets \<and> out' = map SubnetId u'"
proof (induction subnets arbitrary: c u out)
  case Nil
  then show ?case by auto
next
  case (Cons subnet subnets)
  show ?case
  proof (cases "subnetIsUsable subnet u")
    case True
    with Cons.prems
      Cons.IH [of "albcache_Set c now ''ClusterSubnets'' (SubnetId subnet) (VSubnet subnet) (Minute * 60)"
                  "u @ [subnet]" "out @ [SubnetId subnet]"]
    show ?thesis by (simp add: subnetIsUsable_iff)
  next
    case False
    with Cons.prems Cons.IH [of c u out]
    show ?thesis by (simp add: subnetIsUsable_iff)
  qed
qed

text \<open>
  Claim C4. When \<open>ClusterSubnets\<close> succeeds, the identifiers it returns are those of
  the subnets admitted from the candidates in discovery order, first seen first
  admitted and no candidate admitted whose zone an admitted one already has, sorted;
  and no two of the admitted subnets share an availability zone.
\<close>

theorem ClusterSubnets_one_per_zone:
  assumes "ClusterSubnets w now scheme st = (Ret (Inr ids), st')"
  shows "\<exists>key resources.
           schemeKey scheme = Inr key \<and> GetClusterResources w = Inr resources
           \<and> ids = sort (map SubnetId (admitInOrder [] (discovered w (cache st) now key resources)))
           \<and> distinct (map AvailabilityZone
                         (admitInOrder [] (discovered w (cache st) now key resources)))"
proof -
  from assms obtain key where key: "schemeKey scheme = Inr key"
    by (cases "schemeKey scheme") (simp_all add: cluster_defs)
  from assms key obtain resources where res: "GetClusterResources w = Inr resources"
    by (cases "GetClusterResources w") (simp_all add: cluster_defs Let_def)
  let ?c = "cache st"
  have c1: "cache (record_call GetClusterResourcesCall st) = ?c"
    by (simp add: record_call_def)
  from assms key res obtain u out fv
    where scan: "scanResources ?c now key resources ([], [], []) = Ret (u, out, fv)"
    by (cases "scanResources ?c now key resources ([], [], [])")
       (auto simp: cluster_defs Let_def c1)
  from scanResources_admits [OF scan]
  have u: "u = admitInOrder [] (concat (map (cachedOfReference ?c now key) resources))"
    and out: "out = map SubnetId u"
    and fv: "fv = concat (map (missedOfReference ?c now key) resources)"
    by simp_all
  have d: "distinct (map AvailabilityZone
                         (admitInOrder [] (discovered w (cache st) now key resources)))"
    by (rule admitInOrder_distinct) simp
  show ?thesis
  proof (cases "fv = []")
    case True
    with assms key res scan have "ids = sort out"
      by (simp add: cluster_defs Let_def c1)
    moreover from True have "discovered w ?c now key resources
        = concat (map (cachedOfReference ?c now key) resources)"
      by (simp add: discovered_def fv [symmetric])
    ultimately have "ids = sort (map SubnetId (admitInOrder [] (discovered w ?c now key resources)))"
      using u out by simp
    with key res d show ?thesis by blast
  next
    case False
    let ?input = "[\<lparr>Name = ''subnet-id'', Values = fv\<rparr>]"
    from assms key res scan False obtain o' where desc: "DescribeSubnets w ?input = Inr o'"
      by (cases "DescribeSubnets w ?input") (simp_all add: cluster_defs Let_def c1)
    obtain c' u' out' where adm:
      "admitSubnets now o' (cache (record_call (DescribeSubnetsCall ?input)
                                     (record_call GetClusterResourcesCall st)), u, out)
         = (c', u', out')"
      by (metis prod_cases3)
    from admitSubnets_admits [OF adm out]
    have u': "u' = admitInOrder u o'" and out': "out' = map SubnetId u'" by simp_all
    from assms key res scan False desc adm have "ids = sort out'"
      by (simp add: cluster_defs Let_def c1 split: if_splits)
    moreover from False desc have "discovered w ?c now key resources
        = concat (map (cachedOfReference ?c now key) resources) @ o'"
      by (simp add: discovered_def fv [symmetric])
    ultimately have "ids = sort (map SubnetId (admitInOrder [] (discovered w ?c now key resources)))"
      using u' out' u by (simp add: admitInOrder_append)
    with key res d show ?thesis by blast
  qed
qed

theorem ClusterSubnets_one_per_zone_witness:
  "ClusterSubnets exampleWorld 0 ''internal'' emptyState
     = (Ret (Inr [''subnet-001'', ''subnet-002'']),
        snd (ClusterSubnets exampleWorld 0 ''internal'' emptyState))
   \<and> (\<exists>key resources.
         schemeKey ''internal'' = Inr key \<and> GetClusterResources exampleWorld = Inr resources
         \<and> [''subnet-001'', ''subnet-002'']
             = sort (map SubnetId
                       (admitInOrder [] (discovered exampleWorld (cache emptyState) 0 key resources)))
         \<and> distinct (map AvailabilityZone
                       (admitInOrder [] (discovered exampleWorld (cache emptyState) 0 key resources))))"
proof -
  have "fst (ClusterSubnets exampleWorld 0 ''internal'' emptyState)
          = Ret (Inr [''subnet-001'', ''subnet-002''])"
    by (simp add: example_defs cache_defs cluster_defs scheme_defs)
  then have run: "ClusterSubnets exampleWorld 0 ''internal'' emptyState
     = (Ret (Inr [''subnet-001'', ''subnet-002'']),
        snd (ClusterSubnets exampleWorld 0 ''internal'' emptyState))"
    by (simp add: prod_eq_iff)
  from run ClusterSubnets_one_per_zone [OF run] show ?thesis by blast
qed

section \<open>Deletion of a security group: the retry policy\<close>

lemma Send_attempts_bounded:
  "length (calls (snd (Send r attempt c retryCount st)))
     \<le> length (calls st) + (nat (MaxRetries r) - retryCount) + 1"
proof (induction r attempt c retryCount st rule: Send.induct)
  case (1 r attempt c retryCount st)
  show ?case
  proof (cases "attempt retryCount")
    case None
    then show ?thesis by (simp add: Send.simps [of r attempt c retryCount st] record_call_def)
  next
    case (Some err)
    show ?thesis
    proof (cases "ShouldRetry r \<lparr>Error = Some err, RetryCount = retryCount\<rparr>
                   \<and> int retryCount < MaxRetries r")
      case True
      with Some 1 [of err] have
        "length (calls (snd (Send r attempt c (retryCount + 1) (record_call c st))))
           \<le> length (calls (record_call c st)) + (nat (MaxRetries r) - (retryCount + 1)) + 1"
        by simp
      moreover from True have "retryCount < nat (MaxRetries r)" by linarith
      ultimately show ?thesis
        using Some True by (simp add: Send.simps [of r attempt c retryCount st] record_call_def)
    next
      case False
      with Some have "Send r attempt c retryCount st = (Some err, record_call c st)"
        by (subst Send.simps) auto
      then show ?thesis by (simp add: record_call_def)
    qed
  qed
qed

lemma Send_retried_until_stop:
  "(\<forall>k<n. \<exists>err. attempt (retryCount + k) = Some err
              \<and> ShouldRetry r \<lparr>Error = Some err, RetryCount = retryCount + k\<rparr>)
   \<Longrightarrow> int (retryCount + n) \<le> MaxRetries r
   \<Longrightarrow> attempt (retryCount + n) = None
       \<or> int (retryCount + n) = MaxRetries r
       \<or> (\<exists>err. attempt (retryCount + n) = Some err
                \<and> \<not> ShouldRetry r \<lparr>Error = Some err, RetryCount = retryCount + n\<rparr>)
   \<Longrightarrow> Send r attempt c retryCount st
         = (attempt (retryCount + n), st\<lparr>calls := calls st @ replicate (n + 1) c\<rparr>)"
proof (induction n arbitrary: retryCount st)
  case 0
  show ?case
  proof (cases "attempt retryCount")
    case None
    then show ?thesis by (simp add: Send.simps [of r attempt c retryCount st] record_call_def)
  next
    case (Some err)
    with "0.prems"(3)
    have "\<not> (ShouldRetry r \<lparr>Error = Some err, RetryCount = retryCount\<rparr>
              \<and> int retryCount < MaxRetries r)"
      by auto
    with Some have "Send r attempt c retryCount st = (Some err, record_call c st)"
      by (subst Send.simps) auto
    with Some show ?thesis by (simp add: record_call_def)
  qed
next
  case (Suc n)
  from Suc.prems(1) obtain err where err: "attempt retryCount = Some err"
    and retry: "ShouldRetry r \<lparr>Error = Some err, RetryCount = retryCount\<rparr>"
    by force
  have step: "\<forall>k<n. \<exists>err. attempt (retryCount + 1 + k) = Some err
              \<and> ShouldRetry r \<lparr>Error = Some err, RetryCount = retryCount + 1 + k\<rparr>"
  proof (intro allI impI)
    fix k assume "k < n"
    then have "Suc k < Suc n" by simp
    with Suc.prems(1) have "\<exists>err. attempt (retryCount + Suc k) = Some err
              \<and> ShouldRetry r \<lparr>Error = Some err, RetryCount = retryCount + Suc k\<rparr>"
      by blast
    then show "\<exists>err. attempt (retryCount + 1 + k) = Some err
              \<and> ShouldRetry r \<lparr>Error = Some err, RetryCount = retryCount + 1 + k\<rparr>"
      by simp
  qed
  from Suc.prems(2) have le: "int (retryCount + 1 + n) \<le> MaxRetries r" by simp
  from Suc.prems(3) have stop: "attempt (retryCount + 1 + n) = None
       \<or> int (retryCount + 1 + n) = MaxRetries r
       \<or> (\<exists>err. attempt (retryCount + 1 + n) = Some err
                \<and> \<not> ShouldRetry r \<lparr>Error = Some err, RetryCount = retryCount + 1 + n\<rparr>)"
    by simp
  from Suc.prems(2) have lt: "int retryCount < MaxRetries r" by simp
  from Suc.IH [OF step le stop, of "record_call c st"] err retry lt
  show ?case
    by (simp add: Send.simps [of r attempt c retryCount st] record_call_def replicate_append_same)
qed

lemma wrapper_retries:
  "(\<exists>msg. err = AwsErr ''DependencyViolation'' msg)
     \<or> ShouldRetry d \<lparr>Error = Some err, RetryCount = k\<rparr>
   \<Longrightarrow> ShouldRetry (deleteSecurityGroupRetryer d) \<lparr>Error = Some err, RetryCount = k\<rparr>"
  by (cases err)
     (auto simp: deleteSecurityGroupRetryer_def deleteSecurityGroupRetryer_ShouldRetry_def)

lemma wrapper_gives_up:
  "\<forall>msg. err \<noteq> AwsErr ''DependencyViolation'' msg
   \<Longrightarrow> \<not> ShouldRetry d \<lparr>Error = Some err, RetryCount = k\<rparr>
   \<Longrightarrow> \<not> ShouldRetry (deleteSecurityGroupRetryer d) \<lparr>Error = Some err, RetryCount = k\<rparr>"
  by (cases err)
     (auto simp: deleteSecurityGroupRetryer_def deleteSecurityGroupRetryer_ShouldRetry_def)

lemma wrapper_retries_all:
  assumes "\<forall>k<n. \<exists>err. api sgID k = Some err
              \<and> ((\<exists>msg. err = AwsErr ''DependencyViolation'' msg)
                 \<or> ShouldRetry d \<lparr>Error = Some err, RetryCount = k\<rparr>)"
  shows "\<forall>k<n. \<exists>err. api sgID (0 + k) = Some err
            \<and> ShouldRetry (deleteSecurityGroupRetryer d) \<lparr>Error = Some err, RetryCount = 0 + k\<rparr>"
proof (intro allI impI)
  fix k assume "k < n"
  with assms obtain err where e: "api sgID k = Some err"
    and r: "(\<exists>msg. err = AwsErr ''DependencyViolation'' msg)
             \<or> ShouldRetry d \<lparr>Error = Some err, RetryCount = k\<rparr>"
    by blast
  from wrapper_retries [OF r] e
  show "\<exists>err. api sgID (0 + k) = Some err
        \<and> ShouldRetry (deleteSecurityGroupRetryer d) \<lparr>Error = Some err, RetryCount = 0 + k\<rparr>"
    by simp
qed

lemma wrapper_stops:
  assumes "api sgID n = None
         \<or> n = 20
         \<or> (\<exists>err. api sgID n = Some err
                 \<and> (\<forall>msg. err \<noteq> AwsErr ''DependencyViolation'' msg)
                 \<and> \<not> ShouldRetry d \<lparr>Error = Some err, RetryCount = n\<rparr>)"
  shows "api sgID (0 + n) = None
       \<or> int (0 + n) = MaxRetries (deleteSecurityGroupRetryer d)
       \<or> (\<exists>err. api sgID (0 + n) = Some err
                \<and> \<not> ShouldRetry (deleteSecurityGroupRetryer d)
                       \<lparr>Error = Some err, RetryCount = 0 + n\<rparr>)"
proof -
  have bound: "MaxRetries (deleteSecurityGroupRetryer d) = 20"
    by (simp add: deleteSecurityGroupRetryer_def deleteSecurityGroupRetryer_MaxRetries_def)
  from assms show ?thesis
  proof (elim disjE exE conjE)
    assume "api sgID n = None"
    then show ?thesis by simp
  next
    assume "n = 20"
    with bound show ?thesis by simp
  next
    fix err
    assume e: "api sgID n = Some err"
      and nd: "\<forall>msg. err \<noteq> AwsErr ''DependencyViolation'' msg"
      and ns: "\<not> ShouldRetry d \<lparr>Error = Some err, RetryCount = n\<rparr>"
    from wrapper_gives_up [OF nd ns]
    have "\<not> ShouldRetry (deleteSecurityGroupRetryer d) \<lparr>Error = Some err, RetryCount = 0 + n\<rparr>"
      by simp
    with e have "\<exists>err. api sgID (0 + n) = Some err
                \<and> \<not> ShouldRetry (deleteSecurityGroupRetryer d)
                       \<lparr>Error = Some err, RetryCount = 0 + n\<rparr>"
      by (intro exI [of _ err]) simp
    then show ?thesis by (intro disjI2)
  qed
qed

text \<open>
  Claim C2, as stated, evaluated on both of its halves, with a default policy that
  retries throttling failures and gives up after three retries. (1) The API answers
  the first twenty attempts with the dependency-violation code and the next with
  success: the deletion succeeds after 21 requests, so attempt 21 is made. (2) The API
  answers every attempt with a throttling failure: the deletion sends 21 requests
  before it returns the failure, where the default policy alone sends 4; a failure
  with another code is not handled as by the default policy unchanged.
\<close>

theorem DeleteSecurityGroupByID_twentyone_attempts:
  "DeleteSecurityGroupByID exampleRetryer (blockedTimes 20) ''sg-1'' emptyState
     = (None, emptyState\<lparr>calls := calls emptyState
                                    @ replicate 21 (DeleteSecurityGroupCall ''sg-1'')\<rparr>)
   \<and> DeleteSecurityGroupByID exampleRetryer throttledAlways ''sg-1'' emptyState
     = (Some (AwsErr ''Throttling'' ''rate exceeded''),
        emptyState\<lparr>calls := calls emptyState
                              @ replicate 21 (DeleteSecurityGroupCall ''sg-1'')\<rparr>)
   \<and> Send exampleRetryer (throttledAlways ''sg-1'') (DeleteSecurityGroupCall ''sg-1'') 0 emptyState
     = (Some (AwsErr ''Throttling'' ''rate exceeded''),
        emptyState\<lparr>calls := calls emptyState
                              @ replicate 4 (DeleteSecurityGroupCall ''sg-1'')\<rparr>)"
proof -
  have a: "Send (deleteSecurityGroupRetryer exampleRetryer) (blockedTimes 20 ''sg-1'')
          (DeleteSecurityGroupCall ''sg-1'') 0 emptyState
        = (blockedTimes 20 ''sg-1'' (0 + 20),
           emptyState\<lparr>calls := calls emptyState
                                 @ replicate (20 + 1) (DeleteSecurityGroupCall ''sg-1'')\<rparr>)"
    by (rule Send_retried_until_stop)
       (simp_all add: blockedTimes_def deleteSecurityGroupRetryer_def
          deleteSecurityGroupRetryer_ShouldRetry_def deleteSecurityGroupRetryer_MaxRetries_def)
  have b: "Send (deleteSecurityGroupRetryer exampleRetryer) (throttledAlways ''sg-1'')
          (DeleteSecurityGroupCall ''sg-1'') 0 emptyState
        = (throttledAlways ''sg-1'' (0 + 20),
           emptyState\<lparr>calls := calls emptyState
                                 @ replicate (20 + 1) (DeleteSecurityGroupCall ''sg-1'')\<rparr>)"
    by (rule Send_retried_until_stop)
       (simp_all add: throttledAlways_def exampleRetryer_def deleteSecurityGroupRetryer_def
          deleteSecurityGroupRetryer_ShouldRetry_def deleteSecurityGroupRetryer_MaxRetries_def)
  have c: "Send exampleRetryer (throttledAlways ''sg-1'')
          (DeleteSecurityGroupCall ''sg-1'') 0 emptyState
        = (throttledAlways ''sg-1'' (0 + 3),
           emptyState\<lparr>calls := calls emptyState
                                 @ replicate (3 + 1) (DeleteSecurityGroupCall ''sg-1'')\<rparr>)"
    by (rule Send_retried_until_stop)
       (simp_all add: throttledAlways_def exampleRetryer_def)
  from a b c show ?thesis
    by (simp add: DeleteSecurityGroupByID_def blockedTimes_def throttledAlways_def)
qed

text \<open>
  Claim C2, amended. What one deletion does is fixed by the first attempt that is not
  retried. An attempt is retried when it fails with the dependency-violation code, or
  with any other failure that the wrapped default policy retries (for those the
  decision is the default policy's own), as long as fewer than 20 retries have been
  made; this bound is the wrapper's, for every code, whatever bound the default policy
  has. So when the first \<open>n \<le> 20\<close> attempts are retried and attempt \<open>n + 1\<close> succeeds,
  or fails with another code that the default policy does not retry, or is attempt 21,
  the deletion returns the outcome of that attempt after \<open>n + 1\<close> requests; no deletion
  sends more than 21 requests.
\<close>

theorem DeleteSecurityGroupByID_retry_policy:
  "((\<forall>k<n. \<exists>err. api sgID k = Some err
              \<and> ((\<exists>msg. err = AwsErr ''DependencyViolation'' msg)
                 \<or> ShouldRetry d \<lparr>Error = Some err, RetryCount = k\<rparr>))
      \<and> n \<le> 20
      \<and> (api sgID n = None
         \<or> n = 20
         \<or> (\<exists>err. api sgID n = Some err
                 \<and> (\<forall>msg. err \<noteq> AwsErr ''DependencyViolation'' msg)
                 \<and> \<not> ShouldRetry d \<lparr>Error = Some err, RetryCount = n\<rparr>))
      \<longrightarrow> DeleteSecurityGroupByID d api sgID st
            = (api sgID n,
               st\<lparr>calls := calls st @ replicate (n + 1) (DeleteSecurityGroupCall sgID)\<rparr>))
   \<and> length (calls (snd (DeleteSecurityGroupByID d api sgID st))) \<le> length (calls st) + 21
   \<and> (\<forall>req. (\<forall>msg. Error req \<noteq> Some (AwsErr ''DependencyViolation'' msg))
          \<longrightarrow> ShouldRetry (deleteSecurityGroupRetryer d) req = ShouldRetry d req)
   \<and> (\<forall>req msg. Error req = Some (AwsErr ''DependencyViolation'' msg)
          \<longrightarrow> ShouldRetry (deleteSecurityGroupRetryer d) req)
   \<and> MaxRetries (deleteSecurityGroupRetryer d) = 20"
proof (intro conjI impI allI)
  assume h: "(\<forall>k<n. \<exists>err. api sgID k = Some err
              \<and> ((\<exists>msg. err = AwsErr ''DependencyViolation'' msg)
                 \<or> ShouldRetry d \<lparr>Error = Some err, RetryCount = k\<rparr>))
      \<and> n \<le> 20
      \<and> (api sgID n = None
         \<or> n = 20
         \<or> (\<exists>err. api sgID n = Some err
                 \<and> (\<forall>msg. err \<noteq> AwsErr ''DependencyViolation'' msg)
                 \<and> \<not> ShouldRetry d \<lparr>Error = Some err, RetryCount = n\<rparr>))"
  note h1 = h [THEN conjunct1] and h2 = h [THEN conjunct2, THEN conjunct1]
    and h3 = h [THEN conjunct2, THEN conjunct2]
  have bound: "MaxRetries (deleteSecurityGroupRetryer d) = 20"
    by (simp add: deleteSecurityGroupRetryer_def deleteSecurityGroupRetryer_MaxRetries_def)
  from h2 bound have le: "int (0 + n) \<le> MaxRetries (deleteSecurityGroupRetryer d)"
    by simp
  from Send_retried_until_stop
         [where attempt = "api sgID" and retryCount = 0 and r = "deleteSecurityGroupRetryer d",
          OF wrapper_retries_all [where api = api and sgID = sgID, OF h1] le
             wrapper_stops [where api = api and sgID = sgID, OF h3]]
  show "DeleteSecurityGroupByID d api sgID st
            = (api sgID n,
               st\<lparr>calls := calls st @ replicate (n + 1) (DeleteSecurityGroupCall sgID)\<rparr>)"
    by (simp add: DeleteSecurityGroupByID_def)
next
  from Send_attempts_bounded [of "deleteSecurityGroupRetryer d" "api sgID" "DeleteSecurityGroupCall sgID" 0 st]
  show "length (calls (snd (DeleteSecurityGroupByID d api sgID st))) \<le> length (calls st) + 21"
    by (simp add: DeleteSecurityGroupByID_def deleteSecurityGroupRetryer_def
                  deleteSecurityGroupRetryer_MaxRetries_def)
next
  fix req :: Request assume "\<forall>msg. Error req \<noteq> Some (AwsErr ''DependencyViolation'' msg)"
  then show "ShouldRetry (deleteSecurityGroupRetryer d) req = ShouldRetry d req"
    by (auto simp: deleteSecurityGroupRetryer_def deleteSecurityGroupRetryer_ShouldRetry_def
             split: option.splits error.splits)
next
  fix req :: Request and msg assume "Error req = Some (AwsErr ''DependencyViolation'' msg)"
  then show "ShouldRetry (deleteSecurityGroupRetryer d) req"
    by (simp add: deleteSecurityGroupRetryer_def deleteSecurityGroupRetryer_ShouldRetry_def)
next
  show "MaxRetries (deleteSecurityGroupRetryer d) = 20"
    by (simp add: deleteSecurityGroupRetryer_def deleteSecurityGroupRetryer_MaxRetries_def)
qed

theorem DeleteSecurityGroupByID_retry_policy_witness:
  "DeleteSecurityGroupByID exampleRetryer (blockedTimes 2) ''sg-1'' emptyState
     = (blockedTimes 2 ''sg-1'' 2,
        emptyState\<lparr>calls := calls emptyState
                              @ replicate (2 + 1) (DeleteSecurityGroupCall ''sg-1'')\<rparr>)
   \<and> blockedTimes 2 ''sg-1'' 2 = None
   \<and> ShouldRetry (deleteSecurityGroupRetryer exampleRetryer)
         \<lparr>Error = Some (AwsErr ''InvalidGroup.NotFound'' ''no such group''), RetryCount = 0\<rparr>
       = ShouldRetry exampleRetryer
           \<lparr>Error = Some (AwsErr ''InvalidGroup.NotFound'' ''no such group''), RetryCount = 0\<rparr>
   \<and> ShouldRetry (deleteSecurityGroupRetryer exampleRetryer)
         \<lparr>Error = Some (AwsErr ''DependencyViolation'' ''in use''), RetryCount = 0\<rparr>
   \<and> MaxRetries (deleteSecurityGroupRetryer exampleRetryer) = 20"
proof -
  have blocked: "(\<forall>k<2. \<exists>err. blockedTimes 2 ''sg-1'' k = Some err
              \<and> ((\<exists>msg. err = AwsErr ''DependencyViolation'' msg)
                 \<or> ShouldRetry exampleRetryer \<lparr>Error = Some err, RetryCount = k\<rparr>))
      \<and> (2::nat) \<le> 20
      \<and> (blockedTimes 2 ''sg-1'' 2 = None
         \<or> (2::nat) = 20
         \<or> (\<exists>err. blockedTimes 2 ''sg-1'' 2 = Some err
                 \<and> (\<forall>msg. err \<noteq> AwsErr ''DependencyViolation'' msg)
                 \<and> \<not> ShouldRetry exampleRetryer \<lparr>Error = Some err, RetryCount = 2\<rparr>))"
    by (simp add: blockedTimes_def)
  have ends: "blockedTimes 2 ''sg-1'' 2 = None"
    by (simp add: blockedTimes_def)
  have other: "\<And>msg. Error \<lparr>Error = Some (AwsErr ''InvalidGroup.NotFound'' ''no such group''),
                              RetryCount = 0\<rparr>
                 \<noteq> Some (AwsErr ''DependencyViolation'' msg)"
    by simp
  have dep: "Error \<lparr>Error = Some (AwsErr ''DependencyViolation'' ''in use''), RetryCount = 0\<rparr>
               = Some (AwsErr ''DependencyViolation'' ''in use'')"
    by simp
  note inst = DeleteSecurityGroupByID_retry_policy
               [of 2 "blockedTimes 2" "''sg-1''" exampleRetryer emptyState]
  from inst [THEN conjunct1, rule_format, OF blocked]
  have run: "DeleteSecurityGroupByID exampleRetryer (blockedTimes 2) ''sg-1'' emptyState
     = (blockedTimes 2 ''sg-1'' 2,
        emptyState\<lparr>calls := calls emptyState
                              @ replicate (2 + 1) (DeleteSecurityGroupCall ''sg-1'')\<rparr>)" .
  from inst [THEN conjunct2, THEN conjunct2, THEN conjunct1, rule_format, OF other]
  have same: "ShouldRetry (deleteSecurityGroupRetryer exampleRetryer)
         \<lparr>Error = Some (AwsErr ''InvalidGroup.NotFound'' ''no such group''), RetryCount = 0\<rparr>
       = ShouldRetry exampleRetryer
           \<lparr>Error = Some (AwsErr ''InvalidGroup.NotFound'' ''no such group''), RetryCount = 0\<rparr>" .
  from inst [THEN conjunct2, THEN conjunct2, THEN conjunct2, THEN conjunct1, rule_format, OF dep]
  have retried: "ShouldRetry (deleteSecurityGroupRetryer exampleRetryer)
         \<lparr>Error = Some (AwsErr ''DependencyViolation'' ''in use''), RetryCount = 0\<rparr>" .
  note bound = inst [THEN conjunct2, THEN conjunct2, THEN conjunct2, THEN conjunct2]
  from run ends same retried bound show ?thesis by (intro conjI)
qed

end
